theory Spec2Isabelle
  imports Main
begin

section \<open>The storage engine seen from RocksDBMethods.cpp\<close>

text \<open>
  RocksDBMethods.cpp forwards every operation to objects of the storage engine: the global
  database handle (\<open>_db\<close>), the native transaction object (\<open>_state->_rocksTransaction\<close>)
  and the indexed write batch (\<open>_wb\<close>). Their code is not part of this file. They are
  modelled by what crosses the boundary: the calls they receive, in order, and the answer
  they give to a call, which may depend in any way on the calls received before.
\<close>

type_synonym ColumnFamilyHandle = nat

text \<open>A \<open>rocksdb::ColumnFamilyHandle*\<close>: \<open>None\<close> is the null pointer.\<close>

type_synonym cf_ptr = "ColumnFamilyHandle option"

type_synonym Slice = string

type_synonym Snapshot = nat

text \<open>The codes of \<open>rocksdb::Status\<close>.\<close>

datatype Status =
    kOk | kNotFound | kCorruption | kNotSupported | kInvalidArgument | kIOError
  | kMergeInProgress | kIncomplete | kShutdownInProgress | kTimedOut | kAborted
  | kBusy | kExpired | kTryAgain

definition ok :: "Status \<Rightarrow> bool" where
  "ok s = (s = kOk)"

definition IsNotFound :: "Status \<Rightarrow> bool" where
  "IsNotFound s = (s = kNotFound)"

text \<open>
  \<open>rocksdb::ReadOptions\<close>: the snapshot pointer (\<open>None\<close> is \<open>nullptr\<close>) and the flags the
  structure carries along.
\<close>

record ReadOptions =
  snapshot :: "Snapshot option"
  verify_checksums :: bool
  fill_cache :: bool
  prefix_same_as_start :: bool
  total_order_seek :: bool

text \<open>The default constructor \<open>rocksdb::ReadOptions ro;\<close> attaches no snapshot.\<close>

definition ReadOptions_default :: ReadOptions where
  "ReadOptions_default =
     \<lparr>snapshot = None, verify_checksums = True, fill_cache = True,
      prefix_same_as_start = False, total_order_seek = False\<rparr>"

text \<open>\<open>RocksDBKey\<close>: \<open>key.string()\<close> is the encoded key.\<close>

datatype RocksDBKey = RocksDBKey (key_string: Slice)

datatype StatusHint =
    hint_none | hint_document | hint_collection | hint_view | hint_index
  | hint_database | hint_wal

text \<open>The calls this file issues to the storage engine, with their arguments.\<close>

datatype rocksdb_call =
    DB_KeyMayExist ReadOptions cf_ptr Slice
  | DB_Get ReadOptions cf_ptr Slice
  | Trx_Get ReadOptions cf_ptr Slice
  | Trx_DisableIndexing
  | Trx_EnableIndexing
  | WB_GetFromBatchAndDB ReadOptions cf_ptr Slice
  | WB_Put cf_ptr Slice Slice
  | WB_Delete cf_ptr Slice
  | WB_SingleDelete cf_ptr Slice

text \<open>
  The engine: \<open>calls\<close> is the history; \<open>status_of\<close> gives the status a call returns after
  a history, \<open>value_found\<close> the out-parameter of \<open>KeyMayExist\<close> and \<open>may_exist\<close> its
  return value.
\<close>

record rocksdb =
  calls :: "rocksdb_call list"
  status_of :: "rocksdb_call list \<Rightarrow> rocksdb_call \<Rightarrow> Status"
  may_exist :: "rocksdb_call list \<Rightarrow> rocksdb_call \<Rightarrow> bool"
  value_found :: "rocksdb_call list \<Rightarrow> rocksdb_call \<Rightarrow> bool"

definition issue :: "rocksdb_call \<Rightarrow> rocksdb \<Rightarrow> rocksdb" where
  "issue c e = e\<lparr>calls := calls e @ [c]\<rparr>"

definition status_reply :: "rocksdb \<Rightarrow> rocksdb_call \<Rightarrow> Status" where
  "status_reply e c = status_of e (calls e) c"

section \<open>Results, exceptions and assertions\<close>

datatype error_number =
    TRI_ERROR_NO_ERROR | TRI_ERROR_INTERNAL | TRI_ERROR_ARANGO_READ_ONLY

text \<open>\<open>arangodb::Result\<close>; \<open>Result()\<close> is success.\<close>

record Result =
  errorNumber :: error_number
  errorMessage :: string

definition Result_success :: Result where
  "Result_success = \<lparr>errorNumber = TRI_ERROR_NO_ERROR, errorMessage = []\<rparr>"

definition Result_ok :: "Result \<Rightarrow> bool" where
  "Result_ok r = (errorNumber r = TRI_ERROR_NO_ERROR)"

text \<open>
  What a C++ call can throw: an \<open>arangodb::basics::Exception\<close> (a \<open>std::exception\<close>)
  carrying an error number, another \<open>std::exception\<close>, or anything else.
\<close>

datatype exception = ArangoException error_number | StdException | NonStdException

fun is_std_exception :: "exception \<Rightarrow> bool" where
  "is_std_exception (ArangoException n) = True"
| "is_std_exception StdException = True"
| "is_std_exception NonStdException = False"

text \<open>How a call ends: it returns, it throws, or an assertion stops the process.\<close>

datatype 'a outcome = Returns 'a | Throws exception | AssertionFailed

text \<open>
  Modelled from the spec: the macro \<open>TRI_ASSERT\<close>, defined outside this file. The
  condition is checked in maintainer (debug) builds only; a release build goes on.
\<close>

definition TRI_ASSERT_fails :: "bool \<Rightarrow> bool \<Rightarrow> bool" where
  "TRI_ASSERT_fails maintainer cond = (maintainer \<and> \<not> cond)"

section \<open>RocksDBMethods\<close>

datatype Hint =
    SINGLE_OPERATION | LOCK_ENTIRELY | LOCK_NEVER | NO_INDEXING | INTERMEDIATE_COMMITS

text \<open>
  The fields of \<open>RocksDBTransactionState\<close> that the methods read: \<open>_rocksReadOptions\<close>,
  \<open>_readSnapshot\<close> and the hints. (Its \<open>_rocksTransaction\<close> is the native transaction
  object of the engine above.)
\<close>

record RocksDBTransactionState =
  rocksReadOptions :: ReadOptions
  readSnapshot :: "Snapshot option"
  hints :: "Hint set"

definition hasHint :: "RocksDBTransactionState \<Rightarrow> Hint \<Rightarrow> bool" where
  "hasHint st h = (h \<in> hints st)"

definition RocksDBMethods_iteratorReadOptions ::
  "bool \<Rightarrow> RocksDBTransactionState \<Rightarrow> ReadOptions outcome" where
  "RocksDBMethods_iteratorReadOptions maintainer st =
     (if hasHint st INTERMEDIATE_COMMITS then
        (let ro = rocksReadOptions st in
         if TRI_ASSERT_fails maintainer (readSnapshot st \<noteq> None) then AssertionFailed
         else Returns (ro\<lparr>snapshot := readSnapshot st\<rparr>))
      else Returns (rocksReadOptions st))"

subsection \<open>RocksDBReadOnlyMethods\<close>

definition RocksDBReadOnlyMethods_Exists ::
  "bool \<Rightarrow> RocksDBTransactionState \<Rightarrow> rocksdb \<Rightarrow> cf_ptr \<Rightarrow> RocksDBKey
   \<Rightarrow> bool outcome \<times> rocksdb" where
  "RocksDBReadOnlyMethods_Exists maintainer st e cf key =
     (if TRI_ASSERT_fails maintainer (cf \<noteq> None) then (AssertionFailed, e)
      else
        (let probe = DB_KeyMayExist (rocksReadOptions st) cf (key_string key);
             valueFound = value_found e (calls e) probe;
             mayExist = may_exist e (calls e) probe;
             e1 = issue probe e
         in if valueFound then (Returns True, e1)
            else if mayExist then
              (let get = DB_Get (rocksReadOptions st) cf (key_string key);
                   s = status_reply e1 get
               in (Returns (\<not> IsNotFound s), issue get e1))
            else (Returns False, e1)))"

definition RocksDBReadOnlyMethods_Put ::
  "rocksdb \<Rightarrow> cf_ptr \<Rightarrow> RocksDBKey \<Rightarrow> Slice \<Rightarrow> StatusHint \<Rightarrow> Result outcome \<times> rocksdb" where
  "RocksDBReadOnlyMethods_Put e cf key val hint =
     (Throws (ArangoException TRI_ERROR_ARANGO_READ_ONLY), e)"

definition RocksDBReadOnlyMethods_Delete ::
  "rocksdb \<Rightarrow> cf_ptr \<Rightarrow> RocksDBKey \<Rightarrow> Result outcome \<times> rocksdb" where
  "RocksDBReadOnlyMethods_Delete e cf key =
     (Throws (ArangoException TRI_ERROR_ARANGO_READ_ONLY), e)"

definition RocksDBReadOnlyMethods_SingleDelete ::
  "rocksdb \<Rightarrow> cf_ptr \<Rightarrow> RocksDBKey \<Rightarrow> Result outcome \<times> rocksdb" where
  "RocksDBReadOnlyMethods_SingleDelete e cf key =
     (Throws (ArangoException TRI_ERROR_ARANGO_READ_ONLY), e)"

subsection \<open>RocksDBTrxMethods\<close>

text \<open>The object's own field; the constructor sets \<open>_indexingDisabled(false)\<close>.\<close>

record RocksDBTrxMethods =
  indexingDisabled :: bool

definition RocksDBTrxMethods_ctor :: RocksDBTrxMethods where
  "RocksDBTrxMethods_ctor = \<lparr>indexingDisabled = False\<rparr>"

definition RocksDBTrxMethods_DisableIndexing ::
  "RocksDBTrxMethods \<Rightarrow> rocksdb \<Rightarrow> bool \<times> RocksDBTrxMethods \<times> rocksdb" where
  "RocksDBTrxMethods_DisableIndexing this e =
     (if \<not> indexingDisabled this then
        (True, this\<lparr>indexingDisabled := True\<rparr>, issue Trx_DisableIndexing e)
      else (False, this, e))"

definition RocksDBTrxMethods_EnableIndexing ::
  "RocksDBTrxMethods \<Rightarrow> rocksdb \<Rightarrow> RocksDBTrxMethods \<times> rocksdb" where
  "RocksDBTrxMethods_EnableIndexing this e =
     (if indexingDisabled this then
        (this\<lparr>indexingDisabled := False\<rparr>, issue Trx_EnableIndexing e)
      else (this, e))"

definition RocksDBTrxMethods_Exists ::
  "bool \<Rightarrow> RocksDBTransactionState \<Rightarrow> rocksdb \<Rightarrow> cf_ptr \<Rightarrow> RocksDBKey
   \<Rightarrow> bool outcome \<times> rocksdb" where
  "RocksDBTrxMethods_Exists maintainer st e cf key =
     (if TRI_ASSERT_fails maintainer (cf \<noteq> None) then (AssertionFailed, e)
      else
        (let get = Trx_Get (rocksReadOptions st) cf (key_string key);
             s = status_reply e get
         in (Returns (\<not> IsNotFound s), issue get e)))"

subsection \<open>RocksDBBatchedMethods\<close>

definition RocksDBBatchedMethods_Exists ::
  "bool \<Rightarrow> rocksdb \<Rightarrow> cf_ptr \<Rightarrow> RocksDBKey \<Rightarrow> bool outcome \<times> rocksdb" where
  "RocksDBBatchedMethods_Exists maintainer e cf key =
     (if TRI_ASSERT_fails maintainer (cf \<noteq> None) then (AssertionFailed, e)
      else
        (let ro = ReadOptions_default;
             get = WB_GetFromBatchAndDB ro cf (key_string key);
             s = status_reply e get
         in (Returns (\<not> IsNotFound s), issue get e)))"

definition RocksDBBatchedMethods_Put ::
  "bool \<Rightarrow> rocksdb \<Rightarrow> cf_ptr \<Rightarrow> RocksDBKey \<Rightarrow> Slice \<Rightarrow> StatusHint
   \<Rightarrow> Result outcome \<times> rocksdb" where
  "RocksDBBatchedMethods_Put maintainer e cf key val hint =
     (if TRI_ASSERT_fails maintainer (cf \<noteq> None) then (AssertionFailed, e)
      else (Returns Result_success, issue (WB_Put cf (key_string key) val) e))"

definition RocksDBBatchedMethods_Delete ::
  "bool \<Rightarrow> rocksdb \<Rightarrow> cf_ptr \<Rightarrow> RocksDBKey \<Rightarrow> Result outcome \<times> rocksdb" where
  "RocksDBBatchedMethods_Delete maintainer e cf key =
     (if TRI_ASSERT_fails maintainer (cf \<noteq> None) then (AssertionFailed, e)
      else (Returns Result_success, issue (WB_Delete cf (key_string key)) e))"

definition RocksDBBatchedMethods_SingleDelete ::
  "bool \<Rightarrow> rocksdb \<Rightarrow> cf_ptr \<Rightarrow> RocksDBKey \<Rightarrow> Result outcome \<times> rocksdb" where
  "RocksDBBatchedMethods_SingleDelete maintainer e cf key =
     (if TRI_ASSERT_fails maintainer (cf \<noteq> None) then (AssertionFailed, e)
      else (Returns Result_success, issue (WB_SingleDelete cf (key_string key)) e))"

section \<open>RocksDBSavePoint\<close>

text \<open>\<open>TRI_voc_document_operation_e\<close>, the tag of the document operation a guard wraps.\<close>

datatype TRI_voc_document_operation_e =
    TRI_VOC_DOCUMENT_OPERATION_UNKNOWN
  | TRI_VOC_DOCUMENT_OPERATION_INSERT
  | TRI_VOC_DOCUMENT_OPERATION_UPDATE
  | TRI_VOC_DOCUMENT_OPERATION_REPLACE
  | TRI_VOC_DOCUMENT_OPERATION_REMOVE

text \<open>
  A guard reaches its collaborators through \<open>_trx\<close>: the Methods strategy
  (\<open>RocksDBTransactionState::toMethods(_trx)\<close>), on which it calls the virtual savepoint
  operations, the transaction state (\<open>toState(_trx)\<close>) and the logger. The savepoint
  operations this file defines are those of \<open>RocksDBTrxMethods\<close> (inherited by
  \<open>RocksDBTrxUntrackedMethods\<close>), which forward each call to the native transaction
  object. An event is one such call. \<open>IntermediateCommit\<close> is the one event that is not
  a call of the guard: the transaction committing what it has so far and going on in a
  fresh native transaction.
\<close>

datatype trx_event =
    SetSavePoint
  | RollbackToSavePoint
  | PopSavePoint
  | rollbackOperation TRI_voc_document_operation_e
  | LOG_ERR
  | IntermediateCommit

text \<open>
  The transaction behind \<open>_trx\<close>: whether it is a single-operation transaction, the events
  so far, which calls made inside \<open>rollback()\<close> throw (the destructor is written for that
  case), and the status the native transaction object answers to \<open>PopSavePoint()\<close>, both
  depending on the events before.
\<close>

record transaction_Methods =
  isSingleOperationTransaction :: bool
  events :: "trx_event list"
  throwing :: "trx_event list \<Rightarrow> trx_event \<Rightarrow> exception option"
  pop_status :: "trx_event list \<Rightarrow> Status"

definition emit :: "trx_event \<Rightarrow> transaction_Methods \<Rightarrow> transaction_Methods" where
  "emit ev trx = trx\<lparr>events := events trx @ [ev]\<rparr>"

text \<open>
  Modelled from the spec: an intermediate commit, performed by the transaction state
  outside this file. It invalidates the savepoints set before it.
\<close>

definition intermediateCommit :: "transaction_Methods \<Rightarrow> transaction_Methods" where
  "intermediateCommit trx = emit IntermediateCommit trx"

text \<open>The guard's own fields; \<open>_trx\<close> is passed along explicitly.\<close>

record RocksDBSavePoint =
  operationType :: TRI_voc_document_operation_e
  handled :: bool

text \<open>
  The constructor. \<open>_trx\<close> is dereferenced in the initialiser list, before the assertion
  that it is not null: the model takes the transaction itself.
\<close>

definition RocksDBSavePoint_ctor ::
  "transaction_Methods \<Rightarrow> TRI_voc_document_operation_e
   \<Rightarrow> RocksDBSavePoint \<times> transaction_Methods" where
  "RocksDBSavePoint_ctor trx operationType' =
     (let this = \<lparr>operationType = operationType',
                  handled = isSingleOperationTransaction trx\<rparr>
      in if \<not> handled this then (this, emit SetSavePoint trx) else (this, trx))"

text \<open>
  \<open>RocksDBTrxMethods::PopSavePoint\<close>: the native call is made in both builds; a
  maintainer build asserts that its status is ok, a release build drops the status.
\<close>

definition RocksDBTrxMethods_PopSavePoint ::
  "bool \<Rightarrow> transaction_Methods \<Rightarrow> unit outcome \<times> transaction_Methods" where
  "RocksDBTrxMethods_PopSavePoint maintainer trx =
     (let s = pop_status trx (events trx);
          trx1 = emit PopSavePoint trx
      in if TRI_ASSERT_fails maintainer (ok s) then (AssertionFailed, trx1)
         else (Returns (), trx1))"

text \<open>
  \<open>finish\<close>: when the pop does not return, \<open>_handled = true\<close> is not reached.
\<close>

definition RocksDBSavePoint_finish ::
  "bool \<Rightarrow> bool \<Rightarrow> RocksDBSavePoint \<Rightarrow> transaction_Methods
   \<Rightarrow> unit outcome \<times> RocksDBSavePoint \<times> transaction_Methods" where
  "RocksDBSavePoint_finish maintainer hasPerformedIntermediateCommit this trx =
     (if \<not> handled this \<and> \<not> hasPerformedIntermediateCommit then
        (case RocksDBTrxMethods_PopSavePoint maintainer trx of
           (Returns u, trx1) \<Rightarrow> (Returns (), this\<lparr>handled := True\<rparr>, trx1)
         | (Throws ex, trx1) \<Rightarrow> (Throws ex, this, trx1)
         | (AssertionFailed, trx1) \<Rightarrow> (AssertionFailed, this, trx1))
      else (Returns (), this\<lparr>handled := True\<rparr>, trx))"

definition RocksDBSavePoint_rollback ::
  "bool \<Rightarrow> RocksDBSavePoint \<Rightarrow> transaction_Methods
   \<Rightarrow> unit outcome \<times> RocksDBSavePoint \<times> transaction_Methods" where
  "RocksDBSavePoint_rollback maintainer this trx =
     (if TRI_ASSERT_fails maintainer (\<not> handled this) then (AssertionFailed, this, trx)
      else
        (let trx1 = emit RollbackToSavePoint trx in
         case throwing trx (events trx) RollbackToSavePoint of
           Some ex \<Rightarrow> (Throws ex, this, trx1)
         | None \<Rightarrow>
             (let ev = rollbackOperation (operationType this);
                  trx2 = emit ev trx1
              in case throwing trx (events trx1) ev of
                   Some ex \<Rightarrow> (Throws ex, this, trx2)
                 | None \<Rightarrow> (Returns (), this\<lparr>handled := True\<rparr>, trx2))))"

text \<open>
  The destructor: the fields of the guard as it leaves them, and the transaction. A
  \<open>std::exception\<close> out of \<open>rollback()\<close> is logged, anything else thrown is dropped.
\<close>

definition RocksDBSavePoint_dtor ::
  "bool \<Rightarrow> RocksDBSavePoint \<Rightarrow> transaction_Methods
   \<Rightarrow> unit outcome \<times> RocksDBSavePoint \<times> transaction_Methods" where
  "RocksDBSavePoint_dtor maintainer this trx =
     (if \<not> handled this then
        (case RocksDBSavePoint_rollback maintainer this trx of
           (Throws ex, this1, trx1) \<Rightarrow>
             (if is_std_exception ex then (Returns (), this1, emit LOG_ERR trx1)
              else (Returns (), this1, trx1))
         | r \<Rightarrow> r)
      else (Returns (), this, trx))"

text \<open>
  The life of one guard: construction, the calls of \<open>finish\<close> its user makes (each with
  its argument), destruction. A failed assertion ends it on the spot; an exception
  would leave the scope, on which the destructor runs.
\<close>

fun finishes ::
  "bool \<Rightarrow> bool list \<Rightarrow> RocksDBSavePoint \<Rightarrow> transaction_Methods
   \<Rightarrow> unit outcome \<times> RocksDBSavePoint \<times> transaction_Methods" where
  "finishes maintainer [] this trx = (Returns (), this, trx)"
| "finishes maintainer (b # bs) this trx =
     (case RocksDBSavePoint_finish maintainer b this trx of
        (Returns u, this1, trx1) \<Rightarrow> finishes maintainer bs this1 trx1
      | (Throws ex, this1, trx1) \<Rightarrow> (Throws ex, this1, trx1)
      | (AssertionFailed, this1, trx1) \<Rightarrow> (AssertionFailed, this1, trx1))"

definition guard_life ::
  "bool \<Rightarrow> transaction_Methods \<Rightarrow> TRI_voc_document_operation_e \<Rightarrow> bool list
   \<Rightarrow> unit outcome \<times> RocksDBSavePoint \<times> transaction_Methods" where
  "guard_life maintainer trx operationType' bs =
     (case RocksDBSavePoint_ctor trx operationType' of
        (this, trx1) \<Rightarrow>
          (case finishes maintainer bs this trx1 of
             (Returns u, this2, trx2) \<Rightarrow> RocksDBSavePoint_dtor maintainer this2 trx2
           | (Throws ex, this2, trx2) \<Rightarrow>
               (case RocksDBSavePoint_dtor maintainer this2 trx2 of
                  (Returns u, this3, trx3) \<Rightarrow> (Throws ex, this3, trx3)
                | r \<Rightarrow> r)
           | (AssertionFailed, this2, trx2) \<Rightarrow> (AssertionFailed, this2, trx2)))"

text \<open>How often an event occurs in a history.\<close>

definition occurrences :: "trx_event \<Rightarrow> transaction_Methods \<Rightarrow> nat" where
  "occurrences ev trx = length (filter (\<lambda>x. x = ev) (events trx))"

section \<open>Repeated calls and sample inputs\<close>

text \<open>\<open>n\<close> calls of \<open>DisableIndexing()\<close> in a row, their return values dropped.\<close>

fun disables :: "nat \<Rightarrow> RocksDBTrxMethods \<Rightarrow> rocksdb \<Rightarrow> RocksDBTrxMethods \<times> rocksdb" where
  "disables 0 this e = (this, e)"
| "disables (Suc n) this e =
     (case RocksDBTrxMethods_DisableIndexing this e of (r, this1, e1) \<Rightarrow> disables n this1 e1)"

text \<open>A multi-operation transaction whose collaborators never throw.\<close>

definition quiet_trx :: transaction_Methods where
  "quiet_trx =
     \<lparr>isSingleOperationTransaction = False, events = [], throwing = (\<lambda>h ev. None),
      pop_status = (\<lambda>h. kOk)\<rparr>"

text \<open>A multi-operation transaction in which every call made by \<open>rollback()\<close> throws.\<close>

definition throwing_trx :: transaction_Methods where
  "throwing_trx =
     \<lparr>isSingleOperationTransaction = False, events = [],
      throwing = (\<lambda>h ev. Some StdException), pop_status = (\<lambda>h. kOk)\<rparr>"

text \<open>A single-operation transaction.\<close>

definition single_trx :: transaction_Methods where
  "single_trx =
     \<lparr>isSingleOperationTransaction = True, events = [], throwing = (\<lambda>h ev. None),
      pop_status = (\<lambda>h. kOk)\<rparr>"

text \<open>
  A multi-operation transaction whose native transaction object finds no savepoint to
  pop.
\<close>

definition stale_trx :: transaction_Methods where
  "stale_trx =
     \<lparr>isSingleOperationTransaction = False, events = [], throwing = (\<lambda>h ev. None),
      pop_status = (\<lambda>h. kNotFound)\<rparr>"

text \<open>An engine that answers every call with an I/O error.\<close>

definition failing_engine :: rocksdb where
  "failing_engine =
     \<lparr>calls = [], status_of = (\<lambda>h c. kIOError), may_exist = (\<lambda>h c. False),
      value_found = (\<lambda>h c. False)\<rparr>"

text \<open>An engine that finds nothing.\<close>

definition empty_engine :: rocksdb where
  "empty_engine =
     \<lparr>calls = [], status_of = (\<lambda>h c. kNotFound), may_exist = (\<lambda>h c. False),
      value_found = (\<lambda>h c. False)\<rparr>"

text \<open>A transaction state with a pinned snapshot and the given hints.\<close>

definition sample_state :: "Hint set \<Rightarrow> RocksDBTransactionState" where
  "sample_state hs =
     \<lparr>rocksReadOptions = ReadOptions_default, readSnapshot = Some 7, hints = hs\<rparr>"

section \<open>Lemmas on the guard\<close>

lemma pop_issues_once:
  "events (snd (RocksDBTrxMethods_PopSavePoint maintainer trx)) = events trx @ [PopSavePoint]
   \<and> fst (RocksDBTrxMethods_PopSavePoint maintainer trx)
       = (if maintainer \<and> \<not> ok (pop_status trx (events trx)) then AssertionFailed
          else Returns ())"
  by (simp add: RocksDBTrxMethods_PopSavePoint_def TRI_ASSERT_fails_def emit_def Let_def)

lemma finish_returns_handled:
  "RocksDBSavePoint_finish maintainer b this trx = (Returns u, this1, trx1) \<Longrightarrow> handled this1"
  by (auto simp add: RocksDBSavePoint_finish_def RocksDBTrxMethods_PopSavePoint_def Let_def
      split: if_splits)

lemma finish_never_throws:
  "fst (RocksDBSavePoint_finish maintainer b this trx) \<noteq> Throws ex"
  by (simp add: RocksDBSavePoint_finish_def RocksDBTrxMethods_PopSavePoint_def Let_def)

lemma finish_when_handled:
  "handled this \<Longrightarrow> RocksDBSavePoint_finish maintainer b this trx = (Returns (), this, trx)"
  by (simp add: RocksDBSavePoint_finish_def)

lemma finish_returns:
  "\<not> maintainer \<or> ok (pop_status trx (events trx)) \<or> handled this \<or> b \<Longrightarrow>
   fst (RocksDBSavePoint_finish maintainer b this trx) = Returns ()"
  by (auto simp add: RocksDBSavePoint_finish_def RocksDBTrxMethods_PopSavePoint_def
      TRI_ASSERT_fails_def Let_def)

lemma finishes_when_handled:
  "handled this \<Longrightarrow> finishes maintainer bs this trx = (Returns (), this, trx)"
  by (induction bs) (simp_all add: finish_when_handled)

text \<open>Only the first call of \<open>finish\<close> counts.\<close>

lemma finishes_Cons:
  "finishes maintainer (b # bs) this trx = RocksDBSavePoint_finish maintainer b this trx"
proof -
  obtain r this1 trx1 where f: "RocksDBSavePoint_finish maintainer b this trx = (r, this1, trx1)"
    by (cases "RocksDBSavePoint_finish maintainer b this trx")
  show ?thesis
  proof (cases r)
    case (Returns u)
    then have "handled this1" using finish_returns_handled f by simp
    then show ?thesis using f Returns by (simp add: finishes_when_handled)
  next
    case (Throws ex)
    then show ?thesis using f by simp
  next
    case AssertionFailed
    then show ?thesis using f by simp
  qed
qed

lemma dtor_when_handled:
  "handled this \<Longrightarrow> RocksDBSavePoint_dtor maintainer this trx = (Returns (), this, trx)"
  by (simp add: RocksDBSavePoint_dtor_def)

lemma dtor_issues_once:
  "\<not> handled this \<Longrightarrow>
   occurrences RollbackToSavePoint (snd (snd (RocksDBSavePoint_dtor maintainer this trx)))
     = occurrences RollbackToSavePoint trx + 1
   \<and> occurrences PopSavePoint (snd (snd (RocksDBSavePoint_dtor maintainer this trx)))
     = occurrences PopSavePoint trx"
  by (simp add: RocksDBSavePoint_dtor_def RocksDBSavePoint_rollback_def TRI_ASSERT_fails_def
      occurrences_def emit_def Let_def split: option.splits)

text \<open>Whatever \<open>rollback()\<close> throws, the destructor returns.\<close>

lemma dtor_returns: "fst (RocksDBSavePoint_dtor maintainer this trx) = Returns ()"
  by (simp add: RocksDBSavePoint_dtor_def RocksDBSavePoint_rollback_def TRI_ASSERT_fails_def
      Let_def split: option.splits)

lemma rollback_handled:
  "RocksDBSavePoint_rollback maintainer this trx = (Returns (), this1, trx1) \<Longrightarrow> handled this1"
  by (auto simp add: RocksDBSavePoint_rollback_def TRI_ASSERT_fails_def Let_def
      split: option.splits if_splits)

lemma ctor_occurrences:
  "occurrences RollbackToSavePoint (snd (RocksDBSavePoint_ctor trx op))
     = occurrences RollbackToSavePoint trx
   \<and> occurrences PopSavePoint (snd (RocksDBSavePoint_ctor trx op)) = occurrences PopSavePoint trx
   \<and> handled (fst (RocksDBSavePoint_ctor trx op)) = isSingleOperationTransaction trx"
  by (simp add: RocksDBSavePoint_ctor_def occurrences_def emit_def Let_def)

lemma finish_occurrences:
  "occurrences RollbackToSavePoint (snd (snd (RocksDBSavePoint_finish maintainer b this trx)))
     = occurrences RollbackToSavePoint trx
   \<and> occurrences PopSavePoint (snd (snd (RocksDBSavePoint_finish maintainer b this trx))) =
      occurrences PopSavePoint trx + (if \<not> handled this \<and> \<not> b then 1 else 0)"
  by (simp add: RocksDBSavePoint_finish_def RocksDBTrxMethods_PopSavePoint_def
      TRI_ASSERT_fails_def occurrences_def emit_def Let_def)

text \<open>
  Over the life of a guard the savepoint is consumed (popped or rolled back to) at most
  once, whatever calls of \<open>finish\<close> are made and however they end.
\<close>

lemma life_at_most_once:
  "occurrences RollbackToSavePoint (snd (snd (guard_life maintainer trx op bs)))
   + occurrences PopSavePoint (snd (snd (guard_life maintainer trx op bs)))
   \<le> occurrences RollbackToSavePoint trx + occurrences PopSavePoint trx + 1"
proof -
  obtain this1 trx1 where c: "RocksDBSavePoint_ctor trx op = (this1, trx1)"
    by (cases "RocksDBSavePoint_ctor trx op")
  have c1: "occurrences RollbackToSavePoint trx1 = occurrences RollbackToSavePoint trx"
    and c2: "occurrences PopSavePoint trx1 = occurrences PopSavePoint trx"
    using ctor_occurrences [of trx op] c by simp_all
  show ?thesis
  proof (cases bs)
    case Nil
    show ?thesis
    proof (cases "handled this1")
      case True
      then show ?thesis using c Nil c1 c2
        by (simp add: guard_life_def dtor_when_handled)
    next
      case False
      then show ?thesis using c Nil c1 c2 dtor_issues_once [of this1 maintainer trx1]
        by (simp add: guard_life_def)
    qed
  next
    case (Cons b bs')
    obtain r this2 trx2
      where f: "RocksDBSavePoint_finish maintainer b this1 trx1 = (r, this2, trx2)"
      by (cases "RocksDBSavePoint_finish maintainer b this1 trx1")
    have same: "snd (snd (guard_life maintainer trx op bs)) = trx2"
    proof (cases r)
      case (Returns u)
      then have "handled this2" using finish_returns_handled f by simp
      then show ?thesis using c Cons f Returns
        by (simp add: guard_life_def finishes_Cons dtor_when_handled del: finishes.simps)
    next
      case (Throws ex)
      then show ?thesis using finish_never_throws [of maintainer b this1 trx1 ex] f by simp
    next
      case AssertionFailed
      then show ?thesis using c Cons f
        by (simp add: guard_life_def finishes_Cons del: finishes.simps)
    qed
    show ?thesis
      using same finish_occurrences [of maintainer b this1 trx1] f c1 c2 by simp
  qed
qed

lemma life_unfinished:
  assumes m: "\<not> isSingleOperationTransaction trx"
  shows "occurrences RollbackToSavePoint (snd (snd (guard_life maintainer trx op [])))
   = occurrences RollbackToSavePoint trx + 1"
proof -
  obtain this1 trx1 where c: "RocksDBSavePoint_ctor trx op = (this1, trx1)"
    by (cases "RocksDBSavePoint_ctor trx op")
  have "\<not> handled this1"
    and "occurrences RollbackToSavePoint trx1 = occurrences RollbackToSavePoint trx"
    using ctor_occurrences [of trx op] c m by simp_all
  then show ?thesis
    using c dtor_issues_once [of this1 maintainer trx1] by (simp add: guard_life_def)
qed

section \<open>Lemmas on the strategies\<close>

lemma disables_when_disabled:
  "indexingDisabled this \<Longrightarrow> disables n this e = (this, e)"
  by (induction n) (simp_all add: RocksDBTrxMethods_DisableIndexing_def)

text \<open>A read through the read-only strategy does reach the database.\<close>

lemma readonly_exists_probes:
  "length (calls (snd (RocksDBReadOnlyMethods_Exists maintainer st e (Some cf) key)))
   > length (calls e)"
  by (simp add: RocksDBReadOnlyMethods_Exists_def TRI_ASSERT_fails_def issue_def Let_def)

section \<open>The savepoint guard\<close>

text \<open>
  C1. The claim: once the transaction has performed an intermediate commit, a guard
  created before it never pops or rolls back the savepoint, on any exit path, also
  when it is destroyed without \<open>finish()\<close>. The code at that input, in a release and in a
  maintainer build: a guard is constructed on a multi-operation transaction (it sets a
  savepoint and stays un-handled), the transaction commits in between, the guard is
  destroyed without \<open>finish()\<close>. The destructor then calls \<open>rollback()\<close>, which issues
  \<open>RollbackToSavePoint()\<close> and \<open>rollbackOperation\<close> after the intermediate commit: the
  guard has no means of noticing the commit on this path.
\<close>

theorem savepoint_rolled_back_after_intermediate_commit:
  "(case RocksDBSavePoint_ctor quiet_trx TRI_VOC_DOCUMENT_OPERATION_INSERT of
      (guard, trx1) \<Rightarrow>
        (case RocksDBSavePoint_dtor False guard (intermediateCommit trx1) of
           (r, guard', trx2) \<Rightarrow> (handled guard, r, handled guard', events trx2)))
   = (False, Returns (), True,
      [SetSavePoint, IntermediateCommit, RollbackToSavePoint,
       rollbackOperation TRI_VOC_DOCUMENT_OPERATION_INSERT])
   \<and> (case RocksDBSavePoint_ctor quiet_trx TRI_VOC_DOCUMENT_OPERATION_INSERT of
      (guard, trx1) \<Rightarrow>
        (case RocksDBSavePoint_dtor True guard (intermediateCommit trx1) of
           (r, guard', trx2) \<Rightarrow> (handled guard, r, handled guard', events trx2)))
   = (False, Returns (), True,
      [SetSavePoint, IntermediateCommit, RollbackToSavePoint,
       rollbackOperation TRI_VOC_DOCUMENT_OPERATION_INSERT])"
  by (simp add: quiet_trx_def RocksDBSavePoint_ctor_def RocksDBSavePoint_dtor_def
      RocksDBSavePoint_rollback_def intermediateCommit_def emit_def TRI_ASSERT_fails_def)

text \<open>
  C2. A guard is never finished or rolled back twice. Over the whole life of a guard
  (construction, any calls of \<open>finish\<close>, destruction; cut short where a maintainer build
  fails the assertion on the pop's status) at most one \<open>PopSavePoint()\<close> or
  \<open>RollbackToSavePoint()\<close> is issued. A guard in the created state that is destroyed
  issues \<open>RollbackToSavePoint()\<close> exactly once, also when a call inside \<open>rollback()\<close>
  throws; so does the life of a guard on a multi-operation transaction that is never
  finished. The guard is handled after a \<open>finish\<close> that returned (and \<open>finish\<close> returns
  in a release build, and in a maintainer build whenever the pop's status is ok), after a
  \<open>rollback()\<close> that returned, and from its construction on a single-operation
  transaction. A rollback attempt on a handled guard, which can only come from the
  destructor (the one caller of \<open>rollback()\<close>), and a further \<open>finish\<close> change neither
  the guard nor the transaction: no call is issued.
\<close>

theorem savepoint_handled_once:
  "occurrences RollbackToSavePoint (snd (snd (guard_life maintainer trx op bs)))
     + occurrences PopSavePoint (snd (snd (guard_life maintainer trx op bs)))
     \<le> occurrences RollbackToSavePoint trx + occurrences PopSavePoint trx + 1
   \<and> (\<not> handled this \<longrightarrow>
        occurrences RollbackToSavePoint
          (snd (snd (RocksDBSavePoint_dtor maintainer this trx)))
          = occurrences RollbackToSavePoint trx + 1)
   \<and> (\<not> isSingleOperationTransaction trx \<longrightarrow>
        occurrences RollbackToSavePoint (snd (snd (guard_life maintainer trx op [])))
          = occurrences RollbackToSavePoint trx + 1)
   \<and> (RocksDBSavePoint_finish maintainer b this trx = (Returns (), this1, trx1)
        \<longrightarrow> handled this1)
   \<and> (\<not> maintainer \<or> ok (pop_status trx (events trx))
        \<longrightarrow> fst (RocksDBSavePoint_finish maintainer b this trx) = Returns ())
   \<and> (RocksDBSavePoint_rollback maintainer this trx = (Returns (), this2, trx2)
        \<longrightarrow> handled this2)
   \<and> (isSingleOperationTransaction trx \<longrightarrow> handled (fst (RocksDBSavePoint_ctor trx op)))
   \<and> (handled this \<longrightarrow>
        RocksDBSavePoint_dtor maintainer this trx = (Returns (), this, trx)
        \<and> RocksDBSavePoint_finish maintainer b this trx = (Returns (), this, trx))"
  using life_at_most_once [of maintainer trx op bs] life_unfinished [of trx maintainer op]
    finish_returns_handled [of maintainer b this trx "()" this1 trx1]
    finish_returns [of maintainer trx this b]
    rollback_handled [of maintainer this trx this2 trx2]
    ctor_occurrences [of trx op] dtor_when_handled [of this maintainer trx]
    finish_when_handled [of this maintainer b trx] dtor_issues_once [of this maintainer trx]
  by simp

theorem savepoint_handled_once_witness:
  "occurrences RollbackToSavePoint
     (snd (snd (guard_life True throwing_trx TRI_VOC_DOCUMENT_OPERATION_REMOVE []))) = 1
   \<and> events (snd (snd (guard_life True throwing_trx TRI_VOC_DOCUMENT_OPERATION_REMOVE [])))
       = [SetSavePoint, RollbackToSavePoint, LOG_ERR]
   \<and> occurrences RollbackToSavePoint
       (snd (snd (RocksDBSavePoint_dtor True
          \<lparr>operationType = TRI_VOC_DOCUMENT_OPERATION_REMOVE, handled = False\<rparr>
          throwing_trx))) = 1
   \<and> ok (pop_status quiet_trx (events quiet_trx))
   \<and> RocksDBSavePoint_finish True False
        \<lparr>operationType = TRI_VOC_DOCUMENT_OPERATION_REMOVE, handled = False\<rparr> quiet_trx
       = (Returns (), \<lparr>operationType = TRI_VOC_DOCUMENT_OPERATION_REMOVE, handled = True\<rparr>,
          quiet_trx\<lparr>events := [PopSavePoint]\<rparr>)
   \<and> RocksDBSavePoint_rollback True
        \<lparr>operationType = TRI_VOC_DOCUMENT_OPERATION_REMOVE, handled = False\<rparr> quiet_trx
       = (Returns (), \<lparr>operationType = TRI_VOC_DOCUMENT_OPERATION_REMOVE, handled = True\<rparr>,
          quiet_trx\<lparr>events := [RollbackToSavePoint,
            rollbackOperation TRI_VOC_DOCUMENT_OPERATION_REMOVE]\<rparr>)
   \<and> handled (fst (RocksDBSavePoint_ctor single_trx TRI_VOC_DOCUMENT_OPERATION_REMOVE))
   \<and> RocksDBSavePoint_dtor True
        \<lparr>operationType = TRI_VOC_DOCUMENT_OPERATION_REMOVE, handled = True\<rparr> single_trx
       = (Returns (), \<lparr>operationType = TRI_VOC_DOCUMENT_OPERATION_REMOVE, handled = True\<rparr>,
          single_trx)
   \<and> occurrences RollbackToSavePoint
        (snd (snd (guard_life True quiet_trx TRI_VOC_DOCUMENT_OPERATION_REMOVE
           [False, False, True])))
      + occurrences PopSavePoint
        (snd (snd (guard_life True quiet_trx TRI_VOC_DOCUMENT_OPERATION_REMOVE
           [False, False, True]))) = 1
   \<and> guard_life True stale_trx TRI_VOC_DOCUMENT_OPERATION_REMOVE [False, False]
       = (AssertionFailed,
          \<lparr>operationType = TRI_VOC_DOCUMENT_OPERATION_REMOVE, handled = False\<rparr>,
          stale_trx\<lparr>events := [SetSavePoint, PopSavePoint]\<rparr>)"
proof -
  let ?created = "\<lparr>operationType = TRI_VOC_DOCUMENT_OPERATION_REMOVE, handled = False\<rparr>"
  let ?done = "\<lparr>operationType = TRI_VOC_DOCUMENT_OPERATION_REMOVE, handled = True\<rparr>"
  let ?popped = "quiet_trx\<lparr>events := [PopSavePoint]\<rparr>"
  let ?rolled = "quiet_trx\<lparr>events := [RollbackToSavePoint,
            rollbackOperation TRI_VOC_DOCUMENT_OPERATION_REMOVE]\<rparr>"
  note thrown = savepoint_handled_once [of True throwing_trx
      TRI_VOC_DOCUMENT_OPERATION_REMOVE "[]" ?created False ?done ?popped ?done ?rolled]
  note quiet = savepoint_handled_once [of True quiet_trx
      TRI_VOC_DOCUMENT_OPERATION_REMOVE "[False, False, True]" ?created False ?done ?popped
      ?done ?rolled]
  note single = savepoint_handled_once [of True single_trx
      TRI_VOC_DOCUMENT_OPERATION_REMOVE "[]" ?done False ?done ?popped ?done ?rolled]
  have multi: "\<not> isSingleOperationTransaction throwing_trx"
    by (simp add: throwing_trx_def)
  have one: "isSingleOperationTransaction single_trx"
    by (simp add: single_trx_def)
  have life: "occurrences RollbackToSavePoint
     (snd (snd (guard_life True throwing_trx TRI_VOC_DOCUMENT_OPERATION_REMOVE []))) = 1"
    using thrown multi by (simp add: occurrences_def throwing_trx_def)
  have destroyed: "occurrences RollbackToSavePoint
       (snd (snd (RocksDBSavePoint_dtor True ?created throwing_trx))) = 1"
    using thrown by (simp add: occurrences_def throwing_trx_def)
  have constructed:
    "handled (fst (RocksDBSavePoint_ctor single_trx TRI_VOC_DOCUMENT_OPERATION_REMOVE))"
    using single one by simp
  have idle: "RocksDBSavePoint_dtor True ?done single_trx = (Returns (), ?done, single_trx)"
    using single by simp
  have bounded: "occurrences RollbackToSavePoint
        (snd (snd (guard_life True quiet_trx TRI_VOC_DOCUMENT_OPERATION_REMOVE
           [False, False, True])))
      + occurrences PopSavePoint
        (snd (snd (guard_life True quiet_trx TRI_VOC_DOCUMENT_OPERATION_REMOVE
           [False, False, True]))) \<le> 1"
    using quiet by (simp add: occurrences_def quiet_trx_def)
  have computed:
    "events (snd (snd (guard_life True throwing_trx TRI_VOC_DOCUMENT_OPERATION_REMOVE [])))
       = [SetSavePoint, RollbackToSavePoint, LOG_ERR]
     \<and> ok (pop_status quiet_trx (events quiet_trx))
     \<and> RocksDBSavePoint_finish True False ?created quiet_trx = (Returns (), ?done, ?popped)
     \<and> RocksDBSavePoint_rollback True ?created quiet_trx = (Returns (), ?done, ?rolled)
     \<and> 1 \<le> occurrences PopSavePoint
        (snd (snd (guard_life True quiet_trx TRI_VOC_DOCUMENT_OPERATION_REMOVE
           [False, False, True])))
     \<and> guard_life True stale_trx TRI_VOC_DOCUMENT_OPERATION_REMOVE [False, False]
       = (AssertionFailed, ?created, stale_trx\<lparr>events := [SetSavePoint, PopSavePoint]\<rparr>)"
    by (simp add: guard_life_def RocksDBSavePoint_ctor_def RocksDBSavePoint_dtor_def
        RocksDBSavePoint_rollback_def RocksDBSavePoint_finish_def
        RocksDBTrxMethods_PopSavePoint_def TRI_ASSERT_fails_def ok_def
        emit_def occurrences_def quiet_trx_def throwing_trx_def stale_trx_def)
  show ?thesis
    using life destroyed constructed idle bounded computed by linarith
qed

text \<open>
  C4. For a guard in the created state, \<open>finish(true)\<close> leaves the transaction as it is
  (no \<open>PopSavePoint()\<close>) and \<open>finish(false)\<close> issues exactly one \<open>PopSavePoint()\<close> and
  nothing else. \<open>finish(true)\<close> always returns; \<open>finish(false)\<close> returns in a release
  build, and in a maintainer build when the status of the pop is ok. Whenever \<open>finish\<close>
  returns, the guard is handled and its destruction is a no-op: no rollback. In a
  maintainer build a pop whose status is not ok fails the assertion in
  \<open>RocksDBTrxMethods::PopSavePoint\<close>: the process stops inside \<open>finish\<close>, the pop issued
  and the guard not handled.
\<close>

theorem savepoint_finish:
  assumes "\<not> handled this"
  shows "RocksDBSavePoint_finish maintainer True this trx
       = (Returns (), this\<lparr>handled := True\<rparr>, trx)
   \<and> (\<not> maintainer \<or> ok (pop_status trx (events trx)) \<longrightarrow>
        RocksDBSavePoint_finish maintainer False this trx
          = (Returns (), this\<lparr>handled := True\<rparr>,
             trx\<lparr>events := events trx @ [PopSavePoint]\<rparr>))
   \<and> (maintainer \<and> \<not> ok (pop_status trx (events trx)) \<longrightarrow>
        RocksDBSavePoint_finish maintainer False this trx
          = (AssertionFailed, this, trx\<lparr>events := events trx @ [PopSavePoint]\<rparr>))
   \<and> occurrences PopSavePoint (snd (snd (RocksDBSavePoint_finish maintainer False this trx)))
       = occurrences PopSavePoint trx + 1
   \<and> (RocksDBSavePoint_finish maintainer b this trx = (Returns (), this1, trx1) \<longrightarrow>
        handled this1
        \<and> RocksDBSavePoint_dtor maintainer this1 trx1 = (Returns (), this1, trx1))"
proof -
  have keep: "RocksDBSavePoint_finish maintainer True this trx
       = (Returns (), this\<lparr>handled := True\<rparr>, trx)"
    by (simp add: RocksDBSavePoint_finish_def)
  have pop: "\<not> maintainer \<or> ok (pop_status trx (events trx)) \<longrightarrow>
        RocksDBSavePoint_finish maintainer False this trx
          = (Returns (), this\<lparr>handled := True\<rparr>,
             trx\<lparr>events := events trx @ [PopSavePoint]\<rparr>)"
    using assms
    by (auto simp add: RocksDBSavePoint_finish_def RocksDBTrxMethods_PopSavePoint_def
        TRI_ASSERT_fails_def emit_def Let_def)
  have stop: "maintainer \<and> \<not> ok (pop_status trx (events trx)) \<longrightarrow>
        RocksDBSavePoint_finish maintainer False this trx
          = (AssertionFailed, this, trx\<lparr>events := events trx @ [PopSavePoint]\<rparr>)"
    using assms
    by (simp add: RocksDBSavePoint_finish_def RocksDBTrxMethods_PopSavePoint_def
        TRI_ASSERT_fails_def emit_def Let_def)
  have count:
    "occurrences PopSavePoint (snd (snd (RocksDBSavePoint_finish maintainer False this trx)))
       = occurrences PopSavePoint trx + 1"
    using finish_occurrences [of maintainer False this trx] assms by simp
  have after: "RocksDBSavePoint_finish maintainer b this trx = (Returns (), this1, trx1) \<longrightarrow>
        handled this1
        \<and> RocksDBSavePoint_dtor maintainer this1 trx1 = (Returns (), this1, trx1)"
  proof
    assume f: "RocksDBSavePoint_finish maintainer b this trx = (Returns (), this1, trx1)"
    have h: "handled this1" using finish_returns_handled [OF f] .
    show "handled this1
        \<and> RocksDBSavePoint_dtor maintainer this1 trx1 = (Returns (), this1, trx1)"
      using h dtor_when_handled [OF h, of maintainer trx1] by simp
  qed
  show ?thesis using keep pop stop count after by blast
qed

theorem savepoint_finish_witness:
  "\<not> handled (fst (RocksDBSavePoint_ctor quiet_trx TRI_VOC_DOCUMENT_OPERATION_UPDATE))
   \<and> ok (pop_status (snd (RocksDBSavePoint_ctor quiet_trx TRI_VOC_DOCUMENT_OPERATION_UPDATE))
        (events (snd (RocksDBSavePoint_ctor quiet_trx TRI_VOC_DOCUMENT_OPERATION_UPDATE))))
   \<and> events (snd (snd (RocksDBSavePoint_finish True True
        (fst (RocksDBSavePoint_ctor quiet_trx TRI_VOC_DOCUMENT_OPERATION_UPDATE))
        (snd (RocksDBSavePoint_ctor quiet_trx TRI_VOC_DOCUMENT_OPERATION_UPDATE)))))
       = [SetSavePoint]
   \<and> RocksDBSavePoint_finish True False
        (fst (RocksDBSavePoint_ctor quiet_trx TRI_VOC_DOCUMENT_OPERATION_UPDATE))
        (snd (RocksDBSavePoint_ctor quiet_trx TRI_VOC_DOCUMENT_OPERATION_UPDATE))
       = (Returns (), \<lparr>operationType = TRI_VOC_DOCUMENT_OPERATION_UPDATE, handled = True\<rparr>,
          quiet_trx\<lparr>events := [SetSavePoint, PopSavePoint]\<rparr>)
   \<and> RocksDBSavePoint_dtor True
        \<lparr>operationType = TRI_VOC_DOCUMENT_OPERATION_UPDATE, handled = True\<rparr>
        (quiet_trx\<lparr>events := [SetSavePoint, PopSavePoint]\<rparr>)
       = (Returns (), \<lparr>operationType = TRI_VOC_DOCUMENT_OPERATION_UPDATE, handled = True\<rparr>,
          quiet_trx\<lparr>events := [SetSavePoint, PopSavePoint]\<rparr>)
   \<and> \<not> ok (pop_status stale_trx (events stale_trx))
   \<and> RocksDBSavePoint_finish True False
        \<lparr>operationType = TRI_VOC_DOCUMENT_OPERATION_UPDATE, handled = False\<rparr> stale_trx
       = (AssertionFailed,
          \<lparr>operationType = TRI_VOC_DOCUMENT_OPERATION_UPDATE, handled = False\<rparr>,
          stale_trx\<lparr>events := [PopSavePoint]\<rparr>)
   \<and> RocksDBSavePoint_finish False False
        \<lparr>operationType = TRI_VOC_DOCUMENT_OPERATION_UPDATE, handled = False\<rparr> stale_trx
       = (Returns (), \<lparr>operationType = TRI_VOC_DOCUMENT_OPERATION_UPDATE, handled = True\<rparr>,
          stale_trx\<lparr>events := [PopSavePoint]\<rparr>)"
proof -
  have created:
    "\<not> handled (fst (RocksDBSavePoint_ctor quiet_trx TRI_VOC_DOCUMENT_OPERATION_UPDATE))"
    by (simp add: RocksDBSavePoint_ctor_def quiet_trx_def)
  have fresh:
    "\<not> handled \<lparr>operationType = TRI_VOC_DOCUMENT_OPERATION_UPDATE, handled = False\<rparr>"
    by simp
  show ?thesis
    using created
      savepoint_finish [OF created, of True
        "snd (RocksDBSavePoint_ctor quiet_trx TRI_VOC_DOCUMENT_OPERATION_UPDATE)" False
        "\<lparr>operationType = TRI_VOC_DOCUMENT_OPERATION_UPDATE, handled = True\<rparr>"
        "quiet_trx\<lparr>events := [SetSavePoint, PopSavePoint]\<rparr>"]
      savepoint_finish [OF fresh, of True stale_trx]
      savepoint_finish [OF fresh, of False stale_trx]
    by (simp add: RocksDBSavePoint_ctor_def quiet_trx_def stale_trx_def emit_def ok_def)
qed

text \<open>
  C5. Construction on a single-operation transaction gives a handled guard and issues
  no call; on any other transaction it gives a guard in the created state and issues
  exactly one \<open>SetSavePoint()\<close> on the Methods strategy, nothing else.
\<close>

theorem savepoint_construction:
  "(isSingleOperationTransaction trx \<longrightarrow>
      RocksDBSavePoint_ctor trx op = (\<lparr>operationType = op, handled = True\<rparr>, trx))
   \<and> (\<not> isSingleOperationTransaction trx \<longrightarrow>
      RocksDBSavePoint_ctor trx op
        = (\<lparr>operationType = op, handled = False\<rparr>,
           trx\<lparr>events := events trx @ [SetSavePoint]\<rparr>))"
  by (simp add: RocksDBSavePoint_ctor_def emit_def)

theorem savepoint_construction_witness:
  "isSingleOperationTransaction single_trx
   \<and> RocksDBSavePoint_ctor single_trx TRI_VOC_DOCUMENT_OPERATION_INSERT
       = (\<lparr>operationType = TRI_VOC_DOCUMENT_OPERATION_INSERT, handled = True\<rparr>, single_trx)
   \<and> \<not> isSingleOperationTransaction quiet_trx
   \<and> fst (RocksDBSavePoint_ctor quiet_trx TRI_VOC_DOCUMENT_OPERATION_INSERT)
       = \<lparr>operationType = TRI_VOC_DOCUMENT_OPERATION_INSERT, handled = False\<rparr>
   \<and> events (snd (RocksDBSavePoint_ctor quiet_trx TRI_VOC_DOCUMENT_OPERATION_INSERT))
       = [SetSavePoint]"
  using savepoint_construction [of single_trx TRI_VOC_DOCUMENT_OPERATION_INSERT]
    savepoint_construction [of quiet_trx TRI_VOC_DOCUMENT_OPERATION_INSERT]
  by (simp add: single_trx_def quiet_trx_def)

section \<open>The strategies\<close>

text \<open>
  C3. On the read-only strategy \<open>Put\<close>, \<open>Delete\<close> and \<open>SingleDelete\<close> throw the
  read-only error for every column family pointer (the null pointer too), key, value and
  hint, and for every engine: nothing is asserted about the arguments, no call reaches
  the engine, and no Result is returned.
\<close>

theorem readonly_writes_throw:
  "RocksDBReadOnlyMethods_Put e cf key val hint
     = (Throws (ArangoException TRI_ERROR_ARANGO_READ_ONLY), e)
   \<and> RocksDBReadOnlyMethods_Delete e cf key
     = (Throws (ArangoException TRI_ERROR_ARANGO_READ_ONLY), e)
   \<and> RocksDBReadOnlyMethods_SingleDelete e cf key
     = (Throws (ArangoException TRI_ERROR_ARANGO_READ_ONLY), e)
   \<and> fst (RocksDBReadOnlyMethods_Put e cf key val hint) \<noteq> Returns r
   \<and> fst (RocksDBReadOnlyMethods_Delete e cf key) \<noteq> Returns r
   \<and> fst (RocksDBReadOnlyMethods_SingleDelete e cf key) \<noteq> Returns r"
  by (simp add: RocksDBReadOnlyMethods_Put_def RocksDBReadOnlyMethods_Delete_def
      RocksDBReadOnlyMethods_SingleDelete_def)

theorem readonly_writes_throw_witness:
  "RocksDBReadOnlyMethods_Put empty_engine None (RocksDBKey ''k1'') ''v1'' hint_document
     = (Throws (ArangoException TRI_ERROR_ARANGO_READ_ONLY), empty_engine)
   \<and> RocksDBReadOnlyMethods_Delete empty_engine None (RocksDBKey ''k1'')
     = (Throws (ArangoException TRI_ERROR_ARANGO_READ_ONLY), empty_engine)
   \<and> RocksDBReadOnlyMethods_SingleDelete empty_engine None (RocksDBKey ''k1'')
     = (Throws (ArangoException TRI_ERROR_ARANGO_READ_ONLY), empty_engine)
   \<and> fst (RocksDBReadOnlyMethods_Put empty_engine None (RocksDBKey ''k1'') ''v1''
        hint_document) \<noteq> Returns Result_success"
  using readonly_writes_throw [of empty_engine None "RocksDBKey ''k1''" "''v1''"
      hint_document Result_success]
  by simp

text \<open>
  C6. On the batched strategy \<open>Put\<close>, \<open>Delete\<close> and \<open>SingleDelete\<close>, given a column
  family, issue exactly their one call to the write batch and return the success Result,
  in both builds and for every engine, whatever status the batch answers: the status is
  dropped. (With a null pointer for the column family the assertion stops a maintainer
  build; a release build goes on in the same way.)
\<close>

theorem batched_writes_report_success:
  "RocksDBBatchedMethods_Put maintainer e (Some cf) key val hint
     = (Returns Result_success, e\<lparr>calls := calls e @ [WB_Put (Some cf) (key_string key) val]\<rparr>)
   \<and> RocksDBBatchedMethods_Delete maintainer e (Some cf) key
     = (Returns Result_success, e\<lparr>calls := calls e @ [WB_Delete (Some cf) (key_string key)]\<rparr>)
   \<and> RocksDBBatchedMethods_SingleDelete maintainer e (Some cf) key
     = (Returns Result_success,
        e\<lparr>calls := calls e @ [WB_SingleDelete (Some cf) (key_string key)]\<rparr>)
   \<and> RocksDBBatchedMethods_Put False e cfp key val hint
     = (Returns Result_success, e\<lparr>calls := calls e @ [WB_Put cfp (key_string key) val]\<rparr>)
   \<and> RocksDBBatchedMethods_Delete False e cfp key
     = (Returns Result_success, e\<lparr>calls := calls e @ [WB_Delete cfp (key_string key)]\<rparr>)
   \<and> RocksDBBatchedMethods_SingleDelete False e cfp key
     = (Returns Result_success, e\<lparr>calls := calls e @ [WB_SingleDelete cfp (key_string key)]\<rparr>)
   \<and> Result_ok Result_success"
  by (simp add: RocksDBBatchedMethods_Put_def RocksDBBatchedMethods_Delete_def
      RocksDBBatchedMethods_SingleDelete_def TRI_ASSERT_fails_def issue_def
      Result_ok_def Result_success_def)

theorem batched_writes_report_success_witness:
  "status_reply failing_engine (WB_Put (Some 1) ''k1'' ''v1'') = kIOError
   \<and> fst (RocksDBBatchedMethods_Put True failing_engine (Some 1) (RocksDBKey ''k1'') ''v1''
        hint_none) = Returns Result_success
   \<and> calls (snd (RocksDBBatchedMethods_Put True failing_engine (Some 1) (RocksDBKey ''k1'')
        ''v1'' hint_none)) = [WB_Put (Some 1) ''k1'' ''v1'']
   \<and> fst (RocksDBBatchedMethods_Delete True failing_engine (Some 1) (RocksDBKey ''k1''))
       = Returns Result_success
   \<and> calls (snd (RocksDBBatchedMethods_Delete True failing_engine (Some 1)
        (RocksDBKey ''k1''))) = [WB_Delete (Some 1) ''k1'']
   \<and> fst (RocksDBBatchedMethods_SingleDelete True failing_engine (Some 1)
        (RocksDBKey ''k1'')) = Returns Result_success
   \<and> calls (snd (RocksDBBatchedMethods_SingleDelete True failing_engine (Some 1)
        (RocksDBKey ''k1''))) = [WB_SingleDelete (Some 1) ''k1'']"
  using batched_writes_report_success [of True failing_engine 1 "RocksDBKey ''k1''" "''v1''"
      hint_none None]
  by (simp add: failing_engine_def status_reply_def)

text \<open>
  C7. On the transactional strategy \<open>Exists\<close>, given a column family, returns true
  exactly when the status of the transaction object's \<open>Get\<close> (with the state's read
  options) is not not-found: every other status, an error too, counts as "exists".
\<close>

theorem trx_exists_iff_not_notfound:
  "fst (RocksDBTrxMethods_Exists maintainer st e (Some cf) key)
     = Returns (status_reply e (Trx_Get (rocksReadOptions st) (Some cf) (key_string key))
                \<noteq> kNotFound)
   \<and> (status_reply e (Trx_Get (rocksReadOptions st) (Some cf) (key_string key)) \<noteq> kNotFound
        \<longrightarrow> fst (RocksDBTrxMethods_Exists maintainer st e (Some cf) key) = Returns True)"
  by (simp add: RocksDBTrxMethods_Exists_def TRI_ASSERT_fails_def IsNotFound_def Let_def)

theorem trx_exists_iff_not_notfound_witness:
  "status_reply failing_engine
       (Trx_Get (rocksReadOptions (sample_state {})) (Some 2) ''k1'') = kIOError
   \<and> fst (RocksDBTrxMethods_Exists True (sample_state {}) failing_engine (Some 2)
        (RocksDBKey ''k1'')) = Returns True
   \<and> fst (RocksDBTrxMethods_Exists True (sample_state {}) empty_engine (Some 2)
        (RocksDBKey ''k1'')) = Returns False"
  using trx_exists_iff_not_notfound [of True "sample_state {}" failing_engine 2
      "RocksDBKey ''k1''"]
    trx_exists_iff_not_notfound [of True "sample_state {}" empty_engine 2
      "RocksDBKey ''k1''"]
  by (simp add: failing_engine_def empty_engine_def status_reply_def)

text \<open>
  C8. \<open>iteratorReadOptions()\<close>: when the state has the hint \<open>INTERMEDIATE_COMMITS\<close> the
  result is the state's read options with the snapshot replaced by the state's pinned
  read snapshot (a copy: the state itself is not changed); without the hint the result
  is the state's read options as they are. With the hint the pinned snapshot is asserted
  to be there, so the first part is for a state that has one, or a release build.
\<close>

theorem iteratorReadOptions_snapshot:
  "(hasHint st INTERMEDIATE_COMMITS \<and> (readSnapshot st \<noteq> None \<or> \<not> maintainer) \<longrightarrow>
      RocksDBMethods_iteratorReadOptions maintainer st
        = Returns ((rocksReadOptions st)\<lparr>snapshot := readSnapshot st\<rparr>))
   \<and> (\<not> hasHint st INTERMEDIATE_COMMITS \<longrightarrow>
      RocksDBMethods_iteratorReadOptions maintainer st = Returns (rocksReadOptions st))"
  by (auto simp add: RocksDBMethods_iteratorReadOptions_def TRI_ASSERT_fails_def Let_def)

theorem iteratorReadOptions_snapshot_witness:
  "hasHint (sample_state {INTERMEDIATE_COMMITS}) INTERMEDIATE_COMMITS
   \<and> readSnapshot (sample_state {INTERMEDIATE_COMMITS}) = Some 7
   \<and> snapshot (rocksReadOptions (sample_state {INTERMEDIATE_COMMITS})) = None
   \<and> RocksDBMethods_iteratorReadOptions True (sample_state {INTERMEDIATE_COMMITS})
       = Returns (ReadOptions_default\<lparr>snapshot := Some 7\<rparr>)
   \<and> \<not> hasHint (sample_state {NO_INDEXING}) INTERMEDIATE_COMMITS
   \<and> RocksDBMethods_iteratorReadOptions True (sample_state {NO_INDEXING})
       = Returns ReadOptions_default"
  using iteratorReadOptions_snapshot [of "sample_state {INTERMEDIATE_COMMITS}" True]
    iteratorReadOptions_snapshot [of "sample_state {NO_INDEXING}" True]
  by (simp add: sample_state_def hasHint_def ReadOptions_default_def)

text \<open>
  C9. Starting with indexing enabled: the first \<open>DisableIndexing()\<close> returns true, sets
  the flag and issues one call to the transaction object; a second one right after (on
  any engine state) returns false and changes nothing; after any number \<open>n + 1\<close> of
  \<open>DisableIndexing()\<close> calls one \<open>EnableIndexing()\<close> gives back the enabled object, with
  one disable and one enable call issued in all; \<open>EnableIndexing()\<close> on an object with
  indexing enabled changes nothing.
\<close>

theorem indexing_toggle:
  assumes "\<not> indexingDisabled this"
  shows "RocksDBTrxMethods_DisableIndexing this e
       = (True, this\<lparr>indexingDisabled := True\<rparr>, e\<lparr>calls := calls e @ [Trx_DisableIndexing]\<rparr>)
   \<and> RocksDBTrxMethods_DisableIndexing (this\<lparr>indexingDisabled := True\<rparr>) e1
       = (False, this\<lparr>indexingDisabled := True\<rparr>, e1)
   \<and> disables (Suc n) this e
       = (this\<lparr>indexingDisabled := True\<rparr>, e\<lparr>calls := calls e @ [Trx_DisableIndexing]\<rparr>)
   \<and> (case disables (Suc n) this e of
        (this2, e2) \<Rightarrow> RocksDBTrxMethods_EnableIndexing this2 e2)
       = (this, e\<lparr>calls := calls e @ [Trx_DisableIndexing, Trx_EnableIndexing]\<rparr>)
   \<and> RocksDBTrxMethods_EnableIndexing this e1 = (this, e1)"
proof -
  have first: "RocksDBTrxMethods_DisableIndexing this e
       = (True, this\<lparr>indexingDisabled := True\<rparr>, e\<lparr>calls := calls e @ [Trx_DisableIndexing]\<rparr>)"
    using assms by (simp add: RocksDBTrxMethods_DisableIndexing_def issue_def)
  have second: "RocksDBTrxMethods_DisableIndexing (this\<lparr>indexingDisabled := True\<rparr>) e1
       = (False, this\<lparr>indexingDisabled := True\<rparr>, e1)"
    by (simp add: RocksDBTrxMethods_DisableIndexing_def)
  have many: "disables (Suc n) this e
       = (this\<lparr>indexingDisabled := True\<rparr>, e\<lparr>calls := calls e @ [Trx_DisableIndexing]\<rparr>)"
    using first by (simp add: disables_when_disabled)
  have restored: "this\<lparr>indexingDisabled := False\<rparr> = this"
    using assms by simp
  have enable: "(case disables (Suc n) this e of
        (this2, e2) \<Rightarrow> RocksDBTrxMethods_EnableIndexing this2 e2)
       = (this, e\<lparr>calls := calls e @ [Trx_DisableIndexing, Trx_EnableIndexing]\<rparr>)"
    using restored many by (simp add: RocksDBTrxMethods_EnableIndexing_def issue_def)
  have idle: "RocksDBTrxMethods_EnableIndexing this e1 = (this, e1)"
    using assms by (simp add: RocksDBTrxMethods_EnableIndexing_def)
  show ?thesis using first second many enable idle by simp
qed

theorem indexing_toggle_witness:
  "\<not> indexingDisabled RocksDBTrxMethods_ctor
   \<and> RocksDBTrxMethods_DisableIndexing RocksDBTrxMethods_ctor empty_engine
       = (True, \<lparr>indexingDisabled = True\<rparr>, empty_engine\<lparr>calls := [Trx_DisableIndexing]\<rparr>)
   \<and> RocksDBTrxMethods_DisableIndexing \<lparr>indexingDisabled = True\<rparr>
        (empty_engine\<lparr>calls := [Trx_DisableIndexing]\<rparr>)
       = (False, \<lparr>indexingDisabled = True\<rparr>, empty_engine\<lparr>calls := [Trx_DisableIndexing]\<rparr>)
   \<and> (case disables 3 RocksDBTrxMethods_ctor empty_engine of
        (this2, e2) \<Rightarrow> RocksDBTrxMethods_EnableIndexing this2 e2)
       = (\<lparr>indexingDisabled = False\<rparr>,
          empty_engine\<lparr>calls := [Trx_DisableIndexing, Trx_EnableIndexing]\<rparr>)"
proof -
  have enabled: "\<not> indexingDisabled RocksDBTrxMethods_ctor"
    by (simp add: RocksDBTrxMethods_ctor_def)
  have three: "(3::nat) = Suc 2" by simp
  show ?thesis
    using enabled
      indexing_toggle [OF enabled, of empty_engine
        "empty_engine\<lparr>calls := [Trx_DisableIndexing]\<rparr>" 2]
    unfolding three [symmetric]
    by (simp add: RocksDBTrxMethods_ctor_def empty_engine_def
        RocksDBTrxMethods_EnableIndexing_def issue_def)
qed

text \<open>
  C10. On the batched strategy \<open>Exists\<close>, given a column family, returns true exactly
  when the status of the batch's \<open>GetFromBatchAndDB\<close> is not not-found, so an error
  status counts as "exists" here too; the one call it issues carries default-constructed
  read options, which have no snapshot.
\<close>

theorem batched_exists_iff_not_notfound:
  "RocksDBBatchedMethods_Exists maintainer e (Some cf) key
     = (Returns (status_reply e (WB_GetFromBatchAndDB ReadOptions_default (Some cf)
                   (key_string key)) \<noteq> kNotFound),
        e\<lparr>calls := calls e @ [WB_GetFromBatchAndDB ReadOptions_default (Some cf)
                   (key_string key)]\<rparr>)
   \<and> snapshot ReadOptions_default = None
   \<and> (status_reply e (WB_GetFromBatchAndDB ReadOptions_default (Some cf) (key_string key))
        \<noteq> kNotFound
        \<longrightarrow> fst (RocksDBBatchedMethods_Exists maintainer e (Some cf) key) = Returns True)"
  by (simp add: RocksDBBatchedMethods_Exists_def TRI_ASSERT_fails_def IsNotFound_def Let_def
      issue_def ReadOptions_default_def)

theorem batched_exists_iff_not_notfound_witness:
  "status_reply failing_engine (WB_GetFromBatchAndDB ReadOptions_default (Some 3) ''k2'')
     = kIOError
   \<and> fst (RocksDBBatchedMethods_Exists True failing_engine (Some 3) (RocksDBKey ''k2''))
       = Returns True
   \<and> calls (snd (RocksDBBatchedMethods_Exists True failing_engine (Some 3)
        (RocksDBKey ''k2'')))
       = [WB_GetFromBatchAndDB ReadOptions_default (Some 3) ''k2'']
   \<and> fst (RocksDBBatchedMethods_Exists True empty_engine (Some 3) (RocksDBKey ''k2''))
       = Returns False"
  using batched_exists_iff_not_notfound [of True failing_engine 3 "RocksDBKey ''k2''"]
    batched_exists_iff_not_notfound [of True empty_engine 3 "RocksDBKey ''k2''"]
  by (simp add: failing_engine_def empty_engine_def status_reply_def)

end
